theory Spec2Isabelle
  imports Complex_Main
begin

section \<open>Tensors, scalar fields and errors\<close>

text \<open>
  The notebook \<^verbatim>\<open>velocity-learning.ipynb\<close> works on torch tensors of floats. The model
  is in exact real arithmetic: a tensor element is a \<^typ>\<open>real\<close>, no rounding and no
  overflow. A batch of points (a tensor of shape \<open>(N, d)\<close>) is the list of its rows; a
  single point given as a tensor of shape \<open>(d)\<close> is the batch of that one row, since every
  reduction of the source is either along the last dimension (\<^verbatim>\<open>dim=-1\<close>) or over
  all elements. The values of a scalar field on a batch are a list of reals, one per row.

  A Python callable may raise, and a scalar field returns \<open>error + real list\<close>. The
  exceptions of the modelled functions: IndexError from \<^verbatim>\<open>x[..., 1]\<close>, ZeroDivisionError
  from a division of Python numbers, and the RuntimeError of \<^verbatim>\<open>torch.autograd.grad\<close>.
\<close>

datatype error = IndexError | ZeroDivisionError | RuntimeError

type_synonym points = "real list list"

type_synonym sdf = "points \<Rightarrow> error + real list"

text \<open>\<^verbatim>\<open>torch.sum(x ** 2, dim=-1)\<close> on one row.\<close>

definition sum_sq :: "real list \<Rightarrow> real" where
  "sum_sq p = sum_list (map (\<lambda>v. v ^ 2) p)"

text \<open>\<^verbatim>\<open>torch.norm(x, dim=-1)\<close> on one row: the Euclidean norm, the distance from the origin.\<close>

definition norm_last :: "real list \<Rightarrow> real" where
  "norm_last p = sqrt (sum_sq p)"

section \<open>The sphere field\<close>

text \<open>
  \<^verbatim>\<open>
  def get_sphere_sdf(r):
      def sphere_sdf(x):
          return torch.sum(x ** 2, dim=-1) - r ** 2
      return sphere_sdf
  \<close>
\<close>

definition get_sphere_sdf :: "real \<Rightarrow> sdf" where
  "get_sphere_sdf r x = Inr (map (\<lambda>p. sum_sq p - r ^ 2) x)"

section \<open>The star field\<close>

text \<open>
  \<^verbatim>\<open>torch.atan2(y, x)\<close>: the polar angle of \<open>(x, y)\<close> in \<open>(-\<pi>, \<pi>]\<close>, and \<open>0\<close> at the
  origin.
\<close>

definition atan2 :: "real \<Rightarrow> real \<Rightarrow> real" where
  "atan2 y x =
     (if 0 < x then arctan (y / x)
      else if x < 0 \<and> 0 \<le> y then arctan (y / x) + pi
      else if x < 0 then arctan (y / x) - pi
      else if 0 < y then pi / 2
      else if y < 0 then - (pi / 2)
      else 0)"

text \<open>The operator \<^verbatim>\<open>%\<close> on tensors (\<^verbatim>\<open>torch.remainder\<close>): the result has the sign of the divisor.\<close>

definition remainder :: "real \<Rightarrow> real \<Rightarrow> real" where
  "remainder a b = a - b * of_int \<lfloor>a / b\<rfloor>"

text \<open>\<^verbatim>\<open>torch.clamp(v, lo, hi)\<close>.\<close>

definition clamp :: "real \<Rightarrow> real \<Rightarrow> real \<Rightarrow> real" where
  "clamp v lo hi = min (max v lo) hi"

text \<open>
  \<^verbatim>\<open>
  def get_star_sdf(r, n, m):
      def star_sdf(x):
          an = torch.tensor(torch.pi / n, device=x.device)
          en = torch.tensor(torch.pi / m, device=x.device)
          acs = torch.tensor([torch.cos(an), torch.sin(an)], ...)
          ecs = torch.tensor([torch.cos(en), torch.sin(en)], ...)
          bn = torch.atan2(x[..., 1], x[..., 0]) % (2.0 * an) - an
          x = torch.norm(x, dim=-1, keepdim=True)
                * torch.cat((torch.cos(bn).unsqueeze(-1), torch.abs(torch.sin(bn)).unsqueeze(-1)), dim=-1)
          x = x - r * acs
          dot_product = torch.sum(x * ecs, dim=-1, keepdim=True)
          x = x + ecs * torch.clamp(-dot_product, 0.0, r * acs[1] / ecs[1])
          return torch.norm(x, dim=-1) * torch.sign(x[..., 0])
      return star_sdf
  \<close>
  \<open>star_point\<close> is the body on one row \<open>p\<close>; the rebound \<open>x\<close> of the source is \<open>x1\<close>, \<open>x2\<close>,
  \<open>x3\<close>. The norm is taken over all coordinates of the row, the angle from the coordinates
  0 and 1 only, and the folded point \<open>x1\<close> has two coordinates whatever the length of \<open>p\<close>.

  \<open>torch.pi / n\<close> and \<open>torch.pi / m\<close> are divisions of Python numbers and raise
  ZeroDivisionError; \<open>x[..., 1]\<close> raises IndexError when the last dimension is shorter than 2.
  The tensor division \<open>r * acs[1] / ecs[1]\<close> does not raise. Its divisor \<open>sin (\<pi> / m)\<close> is
  zero only when \<open>1 / m\<close> is an integer, where torch yields an infinite or undefined bound;
  the statements below about values of the star field are for \<open>sin (\<pi> / m) \<noteq> 0\<close>.
\<close>

definition star_point :: "real \<Rightarrow> real \<Rightarrow> real \<Rightarrow> real list \<Rightarrow> real" where
  "star_point r n m p =
     (let an = pi / n;
          en = pi / m;
          acs = [cos an, sin an];
          ecs = [cos en, sin en];
          bn = remainder (atan2 (p ! 1) (p ! 0)) (2 * an) - an;
          x1 = map (\<lambda>c. norm_last p * c) [cos bn, \<bar>sin bn\<bar>];
          x2 = map2 (\<lambda>a b. a - b) x1 (map (\<lambda>c. r * c) acs);
          dot_product = sum_list (map2 (\<lambda>a b. a * b) x2 ecs);
          x3 = map2 (\<lambda>a b. a + b) x2
                 (map (\<lambda>c. c * clamp (- dot_product) 0 (r * acs ! 1 / ecs ! 1)) ecs)
      in norm_last x3 * sgn (x3 ! 0))"

definition get_star_sdf :: "real \<Rightarrow> real \<Rightarrow> real \<Rightarrow> sdf" where
  "get_star_sdf r n m x =
     (if n = 0 \<or> m = 0 then Inl ZeroDivisionError
      else if list_ex (\<lambda>p. length p < 2) x then Inl IndexError
      else Inr (map (star_point r n m) x))"

section \<open>The annular combinator\<close>

text \<open>
  \<^verbatim>\<open>
  def make_annular(sdf_func, r):
      def onion_sdf(pos):
          sdf_values = sdf_func(pos)
          return torch.abs(sdf_values) - r
      return onion_sdf
  \<close>
  An exception of \<open>sdf_func\<close> propagates; \<open>pos\<close> is only handed on.
\<close>

definition make_annular :: "('a \<Rightarrow> error + real list) \<Rightarrow> real \<Rightarrow> 'a \<Rightarrow> error + real list" where
  "make_annular sdf_func r pos =
     (case sdf_func pos of
        Inl e \<Rightarrow> Inl e
      | Inr sdf_values \<Rightarrow> Inr (map (\<lambda>v. \<bar>v\<bar> - r) sdf_values))"

section \<open>The normal field\<close>

text \<open>
  \<^verbatim>\<open>
  def get_normal_field(f):
      def normal_field(x):
          x = x.requires_grad_(True)
          f_value = f(x)
          grad = torch.autograd.grad(
              outputs=f_value, inputs=x,
              grad_outputs=torch.ones_like(f_value), create_graph=True)[0]
          normal = grad / torch.sqrt(torch.sum(grad ** 2))
          return normal
      return normal_field
  \<close>
  The division is a float division of tensors and never raises: a finite value divided by
  zero is an infinity of its sign, and zero divided by zero is NaN. The divisor is a square
  root, so it is never negative.
\<close>

datatype fval = Fin real | PInf | NInf | NaN

definition fdiv :: "real \<Rightarrow> real \<Rightarrow> fval" where
  "fdiv a b =
     (if b \<noteq> 0 then Fin (a / b)
      else if a = 0 then NaN
      else if 0 < a then PInf
      else NInf)"

text \<open>
  The caller's tensor: its elements and its gradient-tracking flag. \<open>requires_grad_\<close> sets
  the flag of the object it is called on, and returns that same object.
\<close>

record tensor =
  data :: points
  requires_grad :: bool

text \<open>
  Reverse-mode differentiation is the library's. A scalar field handed to
  \<open>get_normal_field\<close> is the callable \<open>f\<close> together with the outcome of
  \<^verbatim>\<open>torch.autograd.grad(outputs=f(x), inputs=x, grad_outputs=ones)\<close> for it:
  \<^item> where the value \<open>f(x)\<close> was computed from \<open>x\<close>, a tensor of the shape of \<open>x\<close>, the
    gradient of the sum of the values of \<open>f\<close> with respect to each element of \<open>x\<close>
    (\<open>is_gradient_of_sum\<close>);
  \<^item> where the value \<open>f(x)\<close> is not connected to \<open>x\<close> in the graph (a field that does not
    use its input), a RuntimeError.
\<close>

record field =
  call :: sdf
  autograd_grad :: "points \<Rightarrow> error + real list list"

definition is_gradient_of_sum :: "sdf \<Rightarrow> (points \<Rightarrow> real list list) \<Rightarrow> bool" where
  "is_gradient_of_sum f g \<longleftrightarrow>
     (\<forall>x. map length (g x) = map length x \<and>
        (\<forall>i < length x. \<forall>j < length (x ! i).
           ((\<lambda>t. sum_list (projr (f (x[i := (x ! i)[j := t]])))) has_real_derivative g x ! i ! j)
             (at (x ! i ! j))))"

text \<open>
  \<open>get_normal_field f x0\<close> returns what the call returns or raises, and the caller's tensor
  after the call. An exception of \<open>f\<close> or of \<^verbatim>\<open>torch.autograd.grad\<close> propagates.
  \<^verbatim>\<open>torch.sum(grad ** 2)\<close> has no \<open>dim\<close>: it sums over all elements of the batch.
\<close>

definition get_normal_field :: "field \<Rightarrow> tensor \<Rightarrow> (error + fval list list) \<times> tensor" where
  "get_normal_field f x0 =
     (let x = x0\<lparr>requires_grad := True\<rparr> in
      case call f (data x) of
        Inl e \<Rightarrow> (Inl e, x)
      | Inr f_value \<Rightarrow>
          (case autograd_grad f (data x) of
             Inl e \<Rightarrow> (Inl e, x)
           | Inr grad \<Rightarrow>
               (let normal = map (map (\<lambda>g. fdiv g (sqrt (sum_list (map (\<lambda>v. v ^ 2) (concat grad)))))) grad
                in (Inr normal, x))))"

text \<open>
  The sphere field: its value is computed from \<open>x\<close>, and its gradient is \<open>2 * x\<close>
  (lemma \<open>sphere_field_gradient\<close>).
\<close>

definition sphere_field :: "real \<Rightarrow> field" where
  "sphere_field r =
     \<lparr>call = get_sphere_sdf r, autograd_grad = (\<lambda>x. Inr (map (map (\<lambda>v. 2 * v)) x))\<rparr>"

section \<open>Basic facts\<close>

lemma sum_sq_nonneg: "0 \<le> sum_sq p"
  unfolding sum_sq_def by (induction p) simp_all

lemma norm_last_nonneg: "0 \<le> norm_last p"
  unfolding norm_last_def by (simp add: sum_sq_nonneg)

lemma norm_last_sq: "(norm_last p) ^ 2 = sum_sq p"
  unfolding norm_last_def by (simp add: sum_sq_nonneg)

lemma sum_sq_pair: "sum_sq [a, b] = a ^ 2 + b ^ 2"
  by (simp add: sum_sq_def)

lemma norm_last_axis: "0 \<le> a \<Longrightarrow> norm_last [a, 0] = a"
  by (simp add: norm_last_def sum_sq_def)

lemma get_sphere_sdf_nth:
  "i < length x \<Longrightarrow> get_sphere_sdf r x = Inr vs \<Longrightarrow> vs ! i = (norm_last (x ! i)) ^ 2 - r ^ 2"
  by (auto simp: get_sphere_sdf_def norm_last_sq)

section \<open>The gradient of the sphere field\<close>

lemma sum_list_upd:
  fixes xs :: "real list"
  shows "k < length xs \<Longrightarrow> sum_list (xs[k := v]) = sum_list xs - xs ! k + v"
  by (induction xs arbitrary: k) (auto split: nat.splits)

lemma sum_sq_upd: "j < length p \<Longrightarrow> sum_sq (p[j := t]) = sum_sq p - (p ! j) ^ 2 + t ^ 2"
  by (simp add: sum_sq_def map_update sum_list_upd)

lemma sphere_values_upd:
  assumes "i < length x" "j < length (x ! i)"
  shows "sum_list (map (\<lambda>p. sum_sq p - r ^ 2) (x[i := (x ! i)[j := t]]))
       = sum_list (map (\<lambda>p. sum_sq p - r ^ 2) x) - (x ! i ! j) ^ 2 + t ^ 2"
  using assms by (simp add: map_update sum_list_upd sum_sq_upd)

lemma sphere_field_gradient:
  "autograd_grad (sphere_field r) = (\<lambda>x. Inr (map (map (\<lambda>v. 2 * v)) x)) \<and>
   is_gradient_of_sum (get_sphere_sdf r) (map (map (\<lambda>v. 2 * v)))"
  unfolding is_gradient_of_sum_def
proof (intro allI conjI impI)
  show "autograd_grad (sphere_field r) = (\<lambda>x. Inr (map (map (\<lambda>v. 2 * v)) x))"
    by (simp add: sphere_field_def)
next
  fix x :: points
  show "map length (map (map (\<lambda>v. 2 * v)) x) = map length x"
    by (simp add: comp_def)
next
  fix x :: points and i j
  assume i: "i < length x" and j: "j < length (x ! i)"
  have eq: "(\<lambda>t. sum_list (projr (get_sphere_sdf r (x[i := (x ! i)[j := t]]))))
      = (\<lambda>t. sum_list (map (\<lambda>p. sum_sq p - r ^ 2) x) - (x ! i ! j) ^ 2 + t ^ 2)"
    using sphere_values_upd [OF i j] by (simp add: get_sphere_sdf_def)
  have "((\<lambda>t. sum_list (map (\<lambda>p. sum_sq p - r ^ 2) x) - (x ! i ! j) ^ 2 + t ^ 2)
      has_real_derivative 2 * (x ! i ! j)) (at (x ! i ! j))"
    by (auto intro!: derivative_eq_intros)
  then show "((\<lambda>t. sum_list (projr (get_sphere_sdf r (x[i := (x ! i)[j := t]]))))
      has_real_derivative map (map (\<lambda>v. 2 * v)) x ! i ! j) (at (x ! i ! j))"
    using i j by (simp add: eq)
qed


section \<open>Facts about the normal field of the sphere\<close>

lemma sum_sq_scale: "sum_sq (map (\<lambda>v. c * v) p) = c ^ 2 * sum_sq p"
  unfolding sum_sq_def by (induction p) (simp_all add: power_mult_distrib algebra_simps)

lemma sum_sq_divide: "sum_sq (map (\<lambda>v. v / c) p) = sum_sq p / c ^ 2"
  unfolding sum_sq_def by (induction p) (simp_all add: power_divide add_divide_distrib)

lemma sum_sq_pos: "\<exists>v \<in> set p. v \<noteq> 0 \<Longrightarrow> 0 < sum_sq p"
proof (induction p)
  case Nil
  then show ?case by simp
next
  case (Cons a p)
  show ?case
  proof (cases "a = 0")
    case True
    with Cons show ?thesis by (simp add: sum_sq_def)
  next
    case False
    then have "0 < a ^ 2" by simp
    moreover have "0 \<le> sum_sq p" by (rule sum_sq_nonneg)
    moreover have "sum_sq (a # p) = a ^ 2 + sum_sq p" by (simp add: sum_sq_def)
    ultimately show ?thesis by linarith
  qed
qed

lemma dot_self: "sum_list (map2 (\<lambda>a b. a * b) q q) = sum_sq q"
  unfolding sum_sq_def by (induction q) (simp_all add: power2_eq_square)

lemma normal_field_sphere_point:
  assumes "\<exists>v \<in> set p. v \<noteq> 0"
  shows "get_normal_field (sphere_field r) \<lparr>data = [p], requires_grad = g\<rparr>
       = (Inr [map (\<lambda>v. Fin (v / norm_last p)) p], \<lparr>data = [p], requires_grad = True\<rparr>)"
proof -
  have pos: "0 < sum_sq p"
    using assms by (rule sum_sq_pos)
  have "sqrt (sum_list (map (\<lambda>v. v ^ 2) (map (\<lambda>v. 2 * v) p))) = sqrt (2 ^ 2 * sum_sq p)"
    using sum_sq_scale [of 2 p] by (simp add: sum_sq_def comp_def)
  also have "\<dots> = 2 * norm_last p"
    by (simp add: real_sqrt_mult norm_last_def)
  finally have nrm: "sqrt (sum_list (map (\<lambda>v. v ^ 2) (map (\<lambda>v. 2 * v) p))) = 2 * norm_last p" .
  have "norm_last p \<noteq> 0"
    using pos by (simp add: norm_last_def)
  then have "\<And>v. fdiv (2 * v) (2 * norm_last p) = Fin (v / norm_last p)"
    by (simp add: fdiv_def)
  then show ?thesis
    using nrm by (simp add: get_normal_field_def sphere_field_def get_sphere_sdf_def Let_def comp_def)
qed

lemma not_origin: "p \<noteq> replicate (length p) (0::real) \<Longrightarrow> \<exists>v \<in> set p. v \<noteq> 0"
  using replicate_length_same [of p 0] by auto

section \<open>Evaluating the star field for \<open>n = 5\<close>, \<open>m = 5\<close>, \<open>r = 1\<close>\<close>

lemma cs_pos: "0 < cos (pi / 5)" "0 < sin (pi / 5)"
proof -
  have b: "- (pi / 2) < pi / 5" "0 < pi / 5" "pi / 5 < pi / 2"
    using pi_gt_zero by linarith+
  show "0 < cos (pi / 5)"
    using b by (intro cos_gt_zero_pi)
  show "0 < sin (pi / 5)"
    using b by (intro sin_gt_zero2)
qed

lemma fold_dot:
  fixes c s :: real
  assumes "c * c + s * s = 1"
  shows "(N * c - c) * c + (N * s - s) * s = N - 1"
proof -
  have "(N * c - c) * c + (N * s - s) * s = (N - 1) * (c * c + s * s)"
    by (simp add: algebra_simps)
  then show ?thesis
    using assms by simp
qed

text \<open>A point whose first two coordinates have polar angle 0, at distance N from the origin.\<close>

lemma star_point_angle0:
  assumes ang: "atan2 (p ! 1) (p ! 0) = 0"
  shows "star_point 1 5 5 p =
     norm_last [cos (pi / 5) * (norm_last p - 1 + clamp (1 - norm_last p) 0 1),
                sin (pi / 5) * (norm_last p - 1 + clamp (1 - norm_last p) 0 1)]
       * sgn (cos (pi / 5) * (norm_last p - 1 + clamp (1 - norm_last p) 0 1))"
proof -
  define C where "C = cos (pi / 5)"
  define S where "S = sin (pi / 5)"
  define N where "N = norm_last p"
  have S: "0 < S" and unit: "C * C + S * S = 1"
    using cs_pos by (simp_all add: C_def S_def)
  have bn: "remainder (atan2 (p ! 1) (p ! 0)) (2 * (pi / 5)) - pi / 5 = - (pi / 5)"
    by (simp only: ang) (simp add: remainder_def)
  have trig: "cos (- (pi / 5)) = C" "\<bar>sin (- (pi / 5))\<bar> = S" "cos (pi / 5) = C" "sin (pi / 5) = S"
    using S by (simp_all add: C_def S_def)
  have dot: "(N * C - C) * C + (N * S - S) * S = N - 1"
    using unit by (rule fold_dot)
  have c: "N * C - C + C * clamp (1 - N) 0 1 = C * (N - 1 + clamp (1 - N) 0 1)"
    and s: "N * S - S + S * clamp (1 - N) 0 1 = S * (N - 1 + clamp (1 - N) 0 1)"
    by (simp_all add: algebra_simps)
  have "star_point 1 5 5 p =
      norm_last [N * C - C + C * clamp (- ((N * C - C) * C + (N * S - S) * S)) 0 (S / S),
                 N * S - S + S * clamp (- ((N * C - C) * C + (N * S - S) * S)) 0 (S / S)]
        * sgn (N * C - C + C * clamp (- ((N * C - C) * C + (N * S - S) * S)) 0 (S / S))"
    unfolding star_point_def Let_def bn trig N_def [symmetric] by simp
  also have "\<dots> = norm_last [C * (N - 1 + clamp (1 - N) 0 1), S * (N - 1 + clamp (1 - N) 0 1)]
        * sgn (C * (N - 1 + clamp (1 - N) 0 1))"
    using S by (simp add: dot c s)
  finally show ?thesis
    by (simp add: C_def S_def N_def)
qed


text \<open>Where the projection on \<open>ecs\<close> is not negative the clamp is 0 and nothing is added.\<close>

lemma star_point_clamp0:
  assumes bn: "remainder (atan2 (p ! 1) (p ! 0)) (2 * (pi / 5)) - pi / 5 = b"
    and A: "cos b = A" and B: "\<bar>sin b\<bar> = B"
    and dot: "1 \<le> norm_last p * (A * cos (pi / 5) + B * sin (pi / 5))"
  shows "star_point 1 5 5 p =
     sqrt ((norm_last p) ^ 2 + 1 - 2 * norm_last p * (A * cos (pi / 5) + B * sin (pi / 5)))
       * sgn (norm_last p * A - cos (pi / 5))"
proof -
  define C where "C = cos (pi / 5)"
  define S where "S = sin (pi / 5)"
  define N where "N = norm_last p"
  have S: "0 < S" and unit: "C * C + S * S = 1"
    using cs_pos by (simp_all add: C_def S_def)
  have AB: "A * A + B * B = 1"
  proof -
    have "\<bar>sin b\<bar> * \<bar>sin b\<bar> = sin b * sin b" by (simp add: abs_mult_self_eq)
    then show ?thesis
      using sin_cos_squared_add3 [of b] by (simp add: A [symmetric] B [symmetric])
  qed
  have trig: "cos (pi / 5) = C" "sin (pi / 5) = S"
    by (simp_all add: C_def S_def)
  have d: "(N * A - C) * C + (N * B - S) * S = N * (A * C + B * S) - 1"
  proof -
    have "(N * A - C) * C + (N * B - S) * S = N * (A * C + B * S) - (C * C + S * S)"
      by (simp add: algebra_simps)
    then show ?thesis using unit by simp
  qed
  have "0 \<le> N * (A * C + B * S) - 1"
    using dot by (simp add: trig N_def)
  then have cl: "clamp (- ((N * A - C) * C + (N * B - S) * S)) 0 (S / S) = 0"
    using S by (simp add: d clamp_def)
  have sq: "(N * A - C) ^ 2 + (N * B - S) ^ 2 = N ^ 2 + 1 - 2 * N * (A * C + B * S)"
  proof -
    have "(N * A - C) ^ 2 + (N * B - S) ^ 2
        = N ^ 2 * (A * A + B * B) + (C * C + S * S) - 2 * N * (A * C + B * S)"
      by (simp add: power2_eq_square algebra_simps)
    then show ?thesis using unit AB by simp
  qed
  have "star_point 1 5 5 p =
      norm_last [N * A - C + C * clamp (- ((N * A - C) * C + (N * B - S) * S)) 0 (S / S),
                 N * B - S + S * clamp (- ((N * A - C) * C + (N * B - S) * S)) 0 (S / S)]
        * sgn (N * A - C + C * clamp (- ((N * A - C) * C + (N * B - S) * S)) 0 (S / S))"
    unfolding star_point_def Let_def bn A B trig N_def [symmetric] by simp
  also have "\<dots> = norm_last [N * A - C, N * B - S] * sgn (N * A - C)"
    by (simp only: cl) simp
  also have "\<dots> = sqrt (N ^ 2 + 1 - 2 * N * (A * C + B * S)) * sgn (N * A - C)"
    by (simp add: norm_last_def sum_sq_pair sq)
  finally show ?thesis
    by (simp add: C_def S_def N_def)
qed

text \<open>Polar angle 0: the folded point lies on the ray through the tip \<open>r * acs\<close>.\<close>

lemma star_point_tip_ray:
  assumes ang: "atan2 (p ! 1) (p ! 0) = 0" and N: "1 \<le> norm_last p"
  shows "star_point 1 5 5 p = norm_last p - 1"
proof -
  have bn: "remainder (atan2 (p ! 1) (p ! 0)) (2 * (pi / 5)) - pi / 5 = - (pi / 5)"
    by (simp only: ang) (simp add: remainder_def)
  have A: "cos (- (pi / 5)) = cos (pi / 5)" and B: "\<bar>sin (- (pi / 5))\<bar> = sin (pi / 5)"
    using cs_pos by simp_all
  have one: "cos (pi / 5) * cos (pi / 5) + sin (pi / 5) * sin (pi / 5) = 1"
    by simp
  have dot: "1 \<le> norm_last p * (cos (pi / 5) * cos (pi / 5) + sin (pi / 5) * sin (pi / 5))"
    using N by (simp only: one mult_1_right)
  have "star_point 1 5 5 p =
      sqrt ((norm_last p) ^ 2 + 1 - 2 * norm_last p * (cos (pi / 5) * cos (pi / 5) + sin (pi / 5) * sin (pi / 5)))
        * sgn (norm_last p * cos (pi / 5) - cos (pi / 5))"
    using bn A B dot by (rule star_point_clamp0)
  also have "\<dots> = sqrt ((norm_last p - 1) ^ 2) * sgn ((norm_last p - 1) * cos (pi / 5))"
    by (simp only: one) (simp add: power2_eq_square algebra_simps)
  also have "\<dots> = norm_last p - 1"
    using N cs_pos by (cases "norm_last p = 1") (simp_all add: sgn_mult)
  finally show ?thesis .
qed

lemma star_origin: "star_point 1 5 5 [0, 0] = 0"
proof -
  have "atan2 ([0, 0] ! 1) ([0, 0] ! 0) = 0" by (simp add: atan2_def)
  from star_point_angle0 [OF this] show ?thesis
    by (simp add: norm_last_def sum_sq_def clamp_def)
qed

lemma star_10_0: "star_point 1 5 5 [10, 0] = 9"
proof -
  have "atan2 ([10, 0] ! 1) ([10, 0] ! 0) = 0" by (simp add: atan2_def)
  moreover have n: "norm_last [10, 0] = 10" by (simp add: norm_last_axis)
  ultimately show ?thesis
    using star_point_tip_ray [of "[10, 0]"] by simp
qed

lemma norm_3_0_4: "norm_last [3, 0, 4] = 5"
proof -
  have "sqrt ((5::real) ^ 2) = \<bar>5\<bar>" by (rule real_sqrt_abs)
  then show ?thesis by (simp add: norm_last_def sum_sq_def)
qed

lemma star_3_0_4: "star_point 1 5 5 [3, 0, 4] = 4"
proof -
  have "atan2 ([3, 0, 4] ! 1) ([3, 0, 4] ! 0) = 0" by (simp add: atan2_def)
  then show ?thesis
    using star_point_tip_ray [of "[3, 0, 4]"] norm_3_0_4 by simp
qed

lemma star_3_0: "star_point 1 5 5 [3, 0] = 2"
proof -
  have "atan2 ([3, 0] ! 1) ([3, 0] ! 0) = 0" by (simp add: atan2_def)
  moreover have n: "norm_last [3, 0] = 3" by (simp add: norm_last_axis)
  ultimately show ?thesis
    using star_point_tip_ray [of "[3, 0]"] by simp
qed


lemma cos_above_half: "0 \<le> a \<Longrightarrow> a < pi / 3 \<Longrightarrow> 1 / 2 < cos a"
proof -
  assume a: "0 \<le> a" "a < pi / 3"
  have "pi / 3 \<le> pi" using pi_gt_zero by linarith
  then have "cos (pi / 3) < cos a"
    using a by (intro cos_monotone_0_pi) simp_all
  then show ?thesis by (simp add: cos_60)
qed

lemma sqrt_between_9_10: "81 < v \<Longrightarrow> v < 100 \<Longrightarrow> 9 < sqrt v \<and> sqrt v < 10"
proof -
  assume v: "81 < v" "v < 100"
  have "sqrt ((9::real) ^ 2) = \<bar>9\<bar>" "sqrt ((10::real) ^ 2) = \<bar>10\<bar>"
    by (rule real_sqrt_abs)+
  then have "sqrt 81 = 9" "sqrt 100 = 10" by simp_all
  moreover have "sqrt 81 < sqrt v" "sqrt v < sqrt 100"
    using v by (simp_all only: real_sqrt_less_iff)
  ultimately show ?thesis by simp
qed

lemma lin_bounds:
  fixes d :: real
  shows "d < 1 \<Longrightarrow> 81 < 101 - 20 * d" and "1 / 2 < d \<Longrightarrow> 101 - 20 * d < 100"
  by simp_all

lemma star_far_value:
  assumes bn: "remainder (atan2 (p ! 1) (p ! 0)) (2 * (pi / 5)) - pi / 5 = b"
    and N: "norm_last p = 10"
    and A: "1 / 2 < cos b"
    and D: "1 / 2 < cos b * cos (pi / 5) + \<bar>sin b\<bar> * sin (pi / 5)"
    and D1: "cos b * cos (pi / 5) + \<bar>sin b\<bar> * sin (pi / 5) < 1"
  shows "9 < star_point 1 5 5 p \<and> star_point 1 5 5 p < 10"
proof -
  have C1: "cos (pi / 5) \<le> 1" by simp
  have dot: "1 \<le> norm_last p * (cos b * cos (pi / 5) + \<bar>sin b\<bar> * sin (pi / 5))"
    using D by (simp add: N)
  have v: "star_point 1 5 5 p =
      sqrt ((norm_last p) ^ 2 + 1 - 2 * norm_last p * (cos b * cos (pi / 5) + \<bar>sin b\<bar> * sin (pi / 5)))
        * sgn (norm_last p * cos b - cos (pi / 5))"
    using bn refl refl dot by (rule star_point_clamp0)
  have "0 < 10 * cos b - cos (pi / 5)"
    using A C1 by linarith
  then have "sgn (norm_last p * cos b - cos (pi / 5)) = 1"
    by (simp add: N)
  then have "star_point 1 5 5 p = sqrt (101 - 20 * (cos b * cos (pi / 5) + \<bar>sin b\<bar> * sin (pi / 5)))"
    using v by (simp add: N)
  moreover have "81 < 101 - 20 * (cos b * cos (pi / 5) + \<bar>sin b\<bar> * sin (pi / 5))"
    using D1 lin_bounds(1) by blast
  moreover have "101 - 20 * (cos b * cos (pi / 5) + \<bar>sin b\<bar> * sin (pi / 5)) < 100"
    using D lin_bounds(2) by blast
  ultimately show ?thesis
    using sqrt_between_9_10 by simp
qed

lemma star_neg10_0: "9 < star_point 1 5 5 [- 10, 0] \<and> star_point 1 5 5 [- 10, 0] < 10"
proof -
  have ang: "atan2 ([- 10, 0] ! 1) ([- 10, 0] ! 0) = pi" by (simp add: atan2_def)
  have "\<lfloor>pi / (2 * (pi / 5))\<rfloor> = 2"
  proof -
    have "pi / (2 * (pi / 5)) = 5 / 2" by simp
    then show ?thesis by simp
  qed
  then have bn: "remainder (atan2 ([- 10, 0] ! 1) ([- 10, 0] ! 0)) (2 * (pi / 5)) - pi / 5 = 0"
    by (simp only: ang remainder_def)
  have n: "norm_last [- 10, 0] = 10"
    by (simp add: norm_last_def sum_sq_def)
  have c: "1 / 2 < cos (pi / 5)" "cos (pi / 5) < 1"
  proof -
    have "0 \<le> pi / 5" "pi / 5 < pi / 3" using pi_gt_zero by simp_all
    then show "1 / 2 < cos (pi / 5)" by (rule cos_above_half)
    have "0 < pi / 5" "pi / 5 < 2 * pi" using pi_gt_zero by simp_all
    then show "cos (pi / 5) < 1" using cos_monotone_0_pi [of 0 "pi / 5"] by simp
  qed
  show ?thesis
    using bn n by (rule star_far_value) (use c in simp_all)
qed


lemma cos_pi10: "1 / 2 < cos (pi / 10)" "cos (pi / 10) < 1" "0 < sin (pi / 10)"
proof -
  have b: "0 \<le> pi / 10" "pi / 10 < pi / 3" "0 < pi / 10" "pi / 10 \<le> pi" "pi / 10 < pi / 2"
    using pi_gt_zero by simp_all
  show "1 / 2 < cos (pi / 10)" using b(1,2) by (rule cos_above_half)
  show "cos (pi / 10) < 1" using cos_monotone_0_pi [of 0 "pi / 10"] b by simp
  show "0 < sin (pi / 10)" using b(3,5) by (rule sin_gt_zero2)
qed

lemma fold_pi10: "cos (pi / 10) * cos (pi / 5) + sin (pi / 10) * sin (pi / 5) = cos (pi / 10)"
proof -
  have "cos (pi / 5 - pi / 10) = cos (pi / 5) * cos (pi / 10) + sin (pi / 5) * sin (pi / 10)"
    by (rule cos_diff)
  moreover have "pi / 5 - pi / 10 = pi / 10" by simp
  ultimately show ?thesis by (simp add: mult.commute)
qed

lemma star_far_pi10:
  assumes bn: "remainder (atan2 (p ! 1) (p ! 0)) (2 * (pi / 5)) - pi / 5 = b"
    and b: "b = pi / 10 \<or> b = - (pi / 10)"
    and N: "norm_last p = 10"
  shows "9 < star_point 1 5 5 p \<and> star_point 1 5 5 p < 10"
proof -
  have c: "cos b = cos (pi / 10)"
    using b by (elim disjE) (simp_all only: cos_minus)
  have s: "\<bar>sin b\<bar> = sin (pi / 10)"
    using b cos_pi10(3) by (elim disjE) (simp_all only: sin_minus abs_minus abs_of_pos)
  show ?thesis
    using bn N by (rule star_far_value) (simp_all only: c s fold_pi10 cos_pi10)
qed

lemma star_0_10: "9 < star_point 1 5 5 [0, 10] \<and> star_point 1 5 5 [0, 10] < 10"
proof -
  have ang: "atan2 ([0, 10] ! 1) ([0, 10] ! 0) = pi / 2" by (simp add: atan2_def)
  have "\<lfloor>pi / 2 / (2 * (pi / 5))\<rfloor> = 1"
  proof -
    have "pi / 2 / (2 * (pi / 5)) = 5 / 4" by simp
    then show ?thesis by simp
  qed
  then have bn: "remainder (atan2 ([0, 10] ! 1) ([0, 10] ! 0)) (2 * (pi / 5)) - pi / 5 = - (pi / 10)"
    by (simp only: ang remainder_def)
  have n: "norm_last [0, 10] = 10"
  proof -
    have "sqrt ((10::real) ^ 2) = \<bar>10\<bar>" by (rule real_sqrt_abs)
    then show ?thesis by (simp add: norm_last_def sum_sq_def)
  qed
  show ?thesis
    using bn _ n by (rule star_far_pi10) simp
qed

lemma star_0_neg10: "9 < star_point 1 5 5 [0, - 10] \<and> star_point 1 5 5 [0, - 10] < 10"
proof -
  have ang: "atan2 ([0, - 10] ! 1) ([0, - 10] ! 0) = - (pi / 2)" by (simp add: atan2_def)
  have "\<lfloor>- (pi / 2) / (2 * (pi / 5))\<rfloor> = - 2"
  proof -
    have "- (pi / 2) / (2 * (pi / 5)) = - (5 / 4)" by simp
    then show ?thesis by (simp add: floor_eq_iff)
  qed
  then have bn: "remainder (atan2 ([0, - 10] ! 1) ([0, - 10] ! 0)) (2 * (pi / 5)) - pi / 5 = pi / 10"
    by (simp only: ang remainder_def)
  have n: "norm_last [0, - 10] = 10"
  proof -
    have "sqrt ((10::real) ^ 2) = \<bar>10\<bar>" by (rule real_sqrt_abs)
    then show ?thesis by (simp add: norm_last_def sum_sq_def)
  qed
  show ?thesis
    using bn _ n by (rule star_far_pi10) simp
qed


section \<open>Claims about the sphere field and the annular combinator\<close>

text \<open>
  C1. For every radius \<open>r\<close> and every batch \<open>x\<close>, the sphere field returns one value per
  point, the squared norm of the point minus \<open>r\<close> squared. With \<open>d\<close> the distance of the
  point from the origin: the value is \<open>d\<^sup>2 - r\<^sup>2\<close>; it is \<open>0\<close> when \<open>d = r\<close>, negative when
  \<open>d < r\<close>, and positive when \<open>d > r\<close> (a radius is not negative).
\<close>

theorem sphere_sdf_value:
  "\<exists>vs. get_sphere_sdf r x = Inr vs \<and> length vs = length x \<and>
     (\<forall>i < length x.
        vs ! i = sum_sq (x ! i) - r ^ 2 \<and>
        vs ! i = (norm_last (x ! i)) ^ 2 - r ^ 2 \<and>
        (norm_last (x ! i) = r \<longrightarrow> vs ! i = 0) \<and>
        (norm_last (x ! i) < r \<longrightarrow> vs ! i < 0) \<and>
        (0 \<le> r \<and> r < norm_last (x ! i) \<longrightarrow> 0 < vs ! i))"
proof -
  let ?vs = "map (\<lambda>p. sum_sq p - r ^ 2) x"
  have "\<And>i. i < length x \<Longrightarrow> norm_last (x ! i) < r \<Longrightarrow> ?vs ! i < 0"
  proof -
    fix i assume i: "i < length x" and lt: "norm_last (x ! i) < r"
    have "(norm_last (x ! i)) ^ 2 < r ^ 2"
      using lt norm_last_nonneg [of "x ! i"] by (intro power_strict_mono) simp_all
    then show "?vs ! i < 0"
      using i by (simp add: norm_last_sq)
  qed
  moreover have "\<And>i. i < length x \<Longrightarrow> 0 \<le> r \<Longrightarrow> r < norm_last (x ! i) \<Longrightarrow> 0 < ?vs ! i"
  proof -
    fix i assume i: "i < length x" and r: "0 \<le> r" and gt: "r < norm_last (x ! i)"
    have "r ^ 2 < (norm_last (x ! i)) ^ 2"
      using gt r by (intro power_strict_mono) simp_all
    then show "0 < ?vs ! i"
      using i by (simp add: norm_last_sq)
  qed
  moreover have "\<And>i. i < length x \<Longrightarrow> norm_last (x ! i) = r \<Longrightarrow> ?vs ! i = 0"
  proof -
    fix i assume i: "i < length x" and eq: "norm_last (x ! i) = r"
    have "sum_sq (x ! i) = r ^ 2"
      using norm_last_sq [of "x ! i"] eq by simp
    then show "?vs ! i = 0"
      using i by simp
  qed
  ultimately show ?thesis
    by (intro exI [of _ ?vs]) (simp add: get_sphere_sdf_def norm_last_sq)
qed

theorem sphere_sdf_value_witness:
  "\<exists>vs. get_sphere_sdf 1 [[1, 0], [0, 0], [2, 0]] = Inr vs \<and>
     norm_last [1, 0] = 1 \<and> vs ! 0 = 0 \<and>
     norm_last [0, 0] < 1 \<and> vs ! 1 < 0 \<and>
     (0::real) \<le> 1 \<and> 1 < norm_last [2, 0] \<and> 0 < vs ! 2"
proof -
  let ?x = "[[1, 0], [0, 0], [2, 0]] :: points"
  obtain vs where vs: "get_sphere_sdf 1 ?x = Inr vs"
    and each: "\<forall>i < length ?x.
        (norm_last (?x ! i) = 1 \<longrightarrow> vs ! i = 0) \<and>
        (norm_last (?x ! i) < 1 \<longrightarrow> vs ! i < 0) \<and>
        (0 \<le> (1::real) \<and> 1 < norm_last (?x ! i) \<longrightarrow> 0 < vs ! i)"
    using sphere_sdf_value [of 1 ?x] by blast
  have d0: "norm_last [1, 0] = 1" and d1: "norm_last [0, 0] < 1" and d2: "1 < norm_last [2, 0]"
    by (simp_all add: norm_last_axis)
  have "vs ! 0 = 0"
    using each d0 by (simp add: All_less_Suc2 numeral_3_eq_3)
  moreover have "vs ! 1 < 0"
    using each d1 by (simp add: All_less_Suc2 numeral_3_eq_3)
  moreover have "0 < vs ! 2"
    using each d2 by (simp add: All_less_Suc2 numeral_3_eq_3 numeral_2_eq_2)
  ultimately show ?thesis
    using vs d0 d1 d2 by simp
qed

text \<open>
  C2. For every scalar field \<open>sdf_func\<close>, every thickness \<open>r\<close> and every input \<open>x\<close>: where
  \<open>sdf_func\<close> returns the values \<open>vs\<close>, the function returned by \<open>make_annular sdf_func r\<close>
  returns \<open>\<bar>v\<bar> - r\<close> for each of them (and where \<open>sdf_func\<close> raises, so does it).
\<close>

theorem make_annular_value:
  "(\<forall>vs. sdf_func x = Inr vs \<longrightarrow>
      make_annular sdf_func r x = Inr (map (\<lambda>v. \<bar>v\<bar> - r) vs) \<and>
      (\<exists>ws. make_annular sdf_func r x = Inr ws \<and> length ws = length vs \<and>
         (\<forall>i < length vs. ws ! i = \<bar>vs ! i\<bar> - r))) \<and>
   (\<forall>e. sdf_func x = Inl e \<longrightarrow> make_annular sdf_func r x = Inl e)"
  by (simp add: make_annular_def)

theorem make_annular_value_witness:
  "get_sphere_sdf 1 [[0, 0], [2, 0]] = Inr [- 1, 3] \<and>
   make_annular (get_sphere_sdf 1) (1 / 2) [[0, 0], [2, 0]] = Inr [1 / 2, 5 / 2] \<and>
   (\<lambda>x :: points. Inl IndexError :: error + real list) [] = Inl IndexError \<and>
   make_annular (\<lambda>x :: points. Inl IndexError) (1 / 2) [] = Inl IndexError"
proof -
  have v: "get_sphere_sdf 1 [[0, 0], [2, 0]] = Inr [- 1, 3]"
    by (simp add: get_sphere_sdf_def sum_sq_def)
  have "make_annular (get_sphere_sdf 1) (1 / 2) [[0, 0], [2, 0]] = Inr (map (\<lambda>v. \<bar>v\<bar> - 1 / 2) [- 1, 3])"
    using make_annular_value [of "get_sphere_sdf 1" "[[0, 0], [2, 0]]" "1 / 2"] v by blast
  moreover have "make_annular (\<lambda>x :: points. Inl IndexError) (1 / 2) [] = Inl IndexError"
    using make_annular_value [of "\<lambda>x :: points. Inl IndexError" "[]" "1 / 2"] by blast
  ultimately show ?thesis
    using v by simp
qed

text \<open>
  C10. For every scalar field \<open>sdf_func\<close> and every thickness \<open>r\<close>, no value returned by
  \<open>make_annular sdf_func r\<close> is below \<open>- r\<close>.
\<close>

theorem make_annular_lower_bound:
  "make_annular sdf_func r pos = Inr ws \<Longrightarrow> \<forall>w \<in> set ws. - r \<le> w"
  by (auto simp: make_annular_def split: sum.splits)

theorem make_annular_lower_bound_witness:
  "make_annular (get_sphere_sdf 1) (1 / 2) [[0, 0], [1, 0], [2, 0]] = Inr [1 / 2, - (1 / 2), 5 / 2] \<and>
   - (1 / 2) \<le> (1 / 2 :: real) \<and> - (1 / 2) \<le> (- (1 / 2) :: real) \<and> - (1 / 2) \<le> (5 / 2 :: real)"
proof -
  have v: "make_annular (get_sphere_sdf 1) (1 / 2) [[0, 0], [1, 0], [2, 0]] = Inr [1 / 2, - (1 / 2), 5 / 2]"
    by (simp add: make_annular_def get_sphere_sdf_def sum_sq_def)
  show ?thesis
    using v make_annular_lower_bound [OF v] by simp
qed

text \<open>
  C7. Applying the annular combinator with thickness \<open>t1\<close> and then with thickness \<open>t2\<close> is
  not the same as applying it once with thickness \<open>t1 + t2\<close>: for every positive \<open>t1\<close> and
  every \<open>t2\<close> there are a scalar field and an input on which the two differ.
\<close>

theorem make_annular_not_additive:
  "0 < t1 \<Longrightarrow>
   \<exists>(sdf_func :: sdf) pos.
     make_annular (make_annular sdf_func t1) t2 pos \<noteq> make_annular sdf_func (t1 + t2) pos"
proof -
  assume t1: "0 < t1"
  have "make_annular (make_annular (get_sphere_sdf 0) t1) t2 [[0, 0]] = Inr [t1 - t2]"
    using t1 by (simp add: make_annular_def get_sphere_sdf_def sum_sq_def)
  moreover have "make_annular (get_sphere_sdf 0) (t1 + t2) [[0, 0]] = Inr [- (t1 + t2)]"
    by (simp add: make_annular_def get_sphere_sdf_def sum_sq_def)
  ultimately have "make_annular (make_annular (get_sphere_sdf 0) t1) t2 [[0, 0]]
      \<noteq> make_annular (get_sphere_sdf 0) (t1 + t2) [[0, 0]]"
    using t1 by simp
  then show ?thesis by blast
qed

theorem make_annular_not_additive_witness:
  "(0::real) < 1 \<and>
   (\<exists>(sdf_func :: sdf) pos.
      make_annular (make_annular sdf_func 1) 2 pos \<noteq> make_annular sdf_func (1 + 2) pos)"
  using make_annular_not_additive [of 1 2] by simp

text \<open>
  With the signed distance to the sphere, \<open>\<parallel>x\<parallel> - r\<close>, which the docstring of \<open>sphere_sdf\<close>
  announces, the shell of thickness \<open>t\<close> has its zeros at the distances \<open>r - t\<close> and
  \<open>r + t\<close> and is negative strictly between them.
\<close>

lemma annular_of_signed_distance:
  assumes "0 < t"
  shows "\<exists>ws. make_annular (\<lambda>x. Inr (map (\<lambda>p. norm_last p - r) x)) t x = Inr ws \<and>
     length ws = length x \<and>
     (\<forall>i < length x.
        (norm_last (x ! i) = r - t \<longrightarrow> ws ! i = 0) \<and>
        (norm_last (x ! i) = r + t \<longrightarrow> ws ! i = 0) \<and>
        (r - t < norm_last (x ! i) \<and> norm_last (x ! i) < r + t \<longrightarrow> ws ! i < 0))"
proof -
  let ?ws = "map (\<lambda>v. \<bar>v\<bar> - t) (map (\<lambda>p. norm_last p - r) x)"
  have "make_annular (\<lambda>x. Inr (map (\<lambda>p. norm_last p - r) x)) t x = Inr ?ws"
    by (simp add: make_annular_def)
  moreover have "\<forall>i < length x.
        (norm_last (x ! i) = r - t \<longrightarrow> ?ws ! i = 0) \<and>
        (norm_last (x ! i) = r + t \<longrightarrow> ?ws ! i = 0) \<and>
        (r - t < norm_last (x ! i) \<and> norm_last (x ! i) < r + t \<longrightarrow> ?ws ! i < 0)"
    using assms by auto
  ultimately show ?thesis by simp
qed

text \<open>
  C3 on the code, for \<open>r = 2\<close>, \<open>t = 1\<close> and the point \<open>(1, 0)\<close> at the distance
  \<open>r - t = 1\<close> from the origin. The signed distance of the point to the sphere is \<open>-1\<close>;
  \<open>get_sphere_sdf\<close> returns the squared form, \<open>-3\<close>, and the shell
  \<open>make_annular (get_sphere_sdf r) t\<close> is \<open>2\<close> there instead of \<open>0\<close>.
\<close>

theorem annular_sphere_at_inner_distance:
  "(0::real) < 2 \<and> (0::real) < 1 \<and> (1::real) < 2 \<and>
   norm_last [1, 0] = 2 - 1 \<and>
   norm_last [1, 0] - 2 = - 1 \<and>
   get_sphere_sdf 2 [[1, 0]] = Inr [- 3] \<and>
   make_annular (get_sphere_sdf 2) 1 [[1, 0]] = Inr [2]"
  by (simp add: make_annular_def get_sphere_sdf_def sum_sq_def norm_last_def)


section \<open>Claims about the normal field\<close>

text \<open>
  A point \<open>p\<close> other than the origin that is passed alone: the normal field of the sphere
  field is \<open>p / \<parallel>p\<parallel>\<close>, of length 1, a positive multiple of \<open>p\<close>, with dot product 1 with
  the normalised position.
\<close>

lemma normal_field_sphere_single_point:
  "0 < r \<Longrightarrow> p \<noteq> replicate (length p) 0 \<Longrightarrow>
   \<exists>n. fst (get_normal_field (sphere_field r) \<lparr>data = [p], requires_grad = g\<rparr>) = Inr [map Fin n] \<and>
     length n = length p \<and>
     norm_last n = 1 \<and>
     n = map (\<lambda>v. v * (1 / norm_last p)) p \<and> 0 < 1 / norm_last p \<and>
     sum_list (map2 (\<lambda>a b. a * b) n (map (\<lambda>v. v / norm_last p) p)) = 1"
proof -
  assume "p \<noteq> replicate (length p) 0"
  then have nz: "\<exists>v \<in> set p. v \<noteq> 0" by (rule not_origin)
  let ?n = "map (\<lambda>v. v / norm_last p) p"
  have pos: "0 < sum_sq p"
    using nz by (rule sum_sq_pos)
  then have npos: "0 < norm_last p"
    by (simp add: norm_last_def)
  have one: "sum_sq ?n = 1"
    using pos by (simp add: sum_sq_divide norm_last_sq)
  have "fst (get_normal_field (sphere_field r) \<lparr>data = [p], requires_grad = g\<rparr>) = Inr [map Fin ?n]"
    using normal_field_sphere_point [OF nz] by (simp add: comp_def)
  moreover have "norm_last ?n = 1"
    using one by (simp add: norm_last_def)
  moreover have "sum_list (map2 (\<lambda>a b. a * b) ?n ?n) = 1"
    using one by (simp only: dot_self)
  ultimately show ?thesis
    using npos by (intro exI [of _ ?n]) simp
qed

text \<open>
  C4 on the code, for \<open>r = 1\<close> and the batch of the two points \<open>(1, 0)\<close> and \<open>(0, 1)\<close>,
  neither of them the origin, each its own normalised position. The gradient \<open>2 * x\<close> of
  the batch is divided by the norm of all its elements, \<open>2 * \<surd>2\<close>: the vector returned for
  \<open>(1, 0)\<close> is \<open>(1 / \<surd>2, 0)\<close>, parallel to the point, but of length \<open>1 / \<surd>2\<close>, not 1, and its
  dot product with the normalised position is \<open>1 / \<surd>2\<close>, not 1.
\<close>

theorem normal_field_batch_not_unit:
  "fst (get_normal_field (sphere_field 1) \<lparr>data = [[1, 0], [0, 1]], requires_grad = False\<rparr>)
     = Inr [[Fin (1 / sqrt 2), Fin 0], [Fin 0, Fin (1 / sqrt 2)]] \<and>
   norm_last [1, 0] = 1 \<and>
   norm_last [1 / sqrt 2, 0] = 1 / sqrt 2 \<and>
   sum_list (map2 (\<lambda>a b. a * b) [1 / sqrt 2, 0] [1, 0]) = 1 / sqrt 2 \<and>
   1 / sqrt 2 < (1::real)"
proof -
  have "sqrt 8 = sqrt (2 ^ 2 * 2)" by simp
  also have "\<dots> = 2 * sqrt 2" by (simp only: real_sqrt_mult real_sqrt_abs)
  finally have "sqrt 8 = 2 * sqrt 2" .
  then have "fst (get_normal_field (sphere_field 1) \<lparr>data = [[1, 0], [0, 1]], requires_grad = False\<rparr>)
      = Inr [[Fin (1 / sqrt 2), Fin 0], [Fin 0, Fin (1 / sqrt 2)]]"
    by (simp add: get_normal_field_def sphere_field_def get_sphere_sdf_def Let_def fdiv_def)
  moreover have "norm_last [1 / sqrt 2, 0] = 1 / sqrt 2"
    by (rule norm_last_axis) simp
  moreover have "1 / sqrt 2 < (1::real)"
    by simp
  ultimately show ?thesis
    by (simp add: norm_last_axis)
qed

text \<open>
  C5 does not hold: at the origin the gradient of the sphere field is zero, and the normal
  field returns normally, with NaN in every component; nothing is raised or reported.
\<close>

theorem normal_field_zero_gradient_silent_counterexample:
  "autograd_grad (sphere_field 1) [[0, 0]] = Inr [[0, 0]] \<and>
   get_normal_field (sphere_field 1) \<lparr>data = [[0, 0]], requires_grad = False\<rparr>
     = (Inr [[NaN, NaN]], \<lparr>data = [[0, 0]], requires_grad = True\<rparr>)"
  by (simp add: get_normal_field_def sphere_field_def get_sphere_sdf_def Let_def fdiv_def)

text \<open>
  C5, as the source has it. For the sphere field of any radius at the origin of any
  dimension \<open>d\<close>, passed alone, the gradient is zero in every component and the normal
  field raises nothing: it returns NaN, the result of \<open>0 / 0\<close>, in every component.
\<close>

theorem normal_field_sphere_origin_nan:
  "autograd_grad (sphere_field r) [replicate d 0] = Inr [replicate d 0] \<and>
   fst (get_normal_field (sphere_field r) \<lparr>data = [replicate d 0], requires_grad = g\<rparr>)
     = Inr [replicate d NaN]"
proof -
  have grad: "autograd_grad (sphere_field r) [replicate d 0] = Inr [replicate d 0]"
    by (simp add: sphere_field_def)
  have "sqrt (sum_list (map (\<lambda>v. v ^ 2) (concat [replicate d (0::real)]))) = 0"
    by (simp add: sum_list_replicate)
  then have "map (map (\<lambda>g. fdiv g (sqrt (sum_list (map (\<lambda>v. v ^ 2) (concat [replicate d (0::real)]))))))
      [replicate d 0] = [replicate d NaN]"
    by (simp add: fdiv_def)
  then have "fst (get_normal_field (sphere_field r) \<lparr>data = [replicate d 0], requires_grad = g\<rparr>)
      = Inr [replicate d NaN]"
    using grad by (simp add: get_normal_field_def get_sphere_sdf_def sphere_field_def Let_def)
  then show ?thesis
    using grad by simp
qed

text \<open>
  An exception of \<^verbatim>\<open>torch.autograd.grad\<close> (a field whose value is not connected to its
  input) reaches the caller.
\<close>

lemma normal_field_autograd_error:
  "call f (data x) = Inr vs \<Longrightarrow> autograd_grad f (data x) = Inl e \<Longrightarrow>
   fst (get_normal_field f x) = Inl e"
  by (simp add: get_normal_field_def Let_def)

text \<open>
  C9 does not hold for the gradient-tracking state: a tensor passed with
  \<open>requires_grad = False\<close> is not the same after the call.
\<close>

theorem normal_field_sets_requires_grad_counterexample:
  "snd (get_normal_field (sphere_field 1) \<lparr>data = [[1, 0]], requires_grad = False\<rparr>)
     \<noteq> \<lparr>data = [[1, 0]], requires_grad = False\<rparr>"
  by (simp add: get_normal_field_def sphere_field_def get_sphere_sdf_def Let_def)

text \<open>
  C9, as the source has it. The function returned by \<open>get_normal_field\<close> leaves the
  elements of the caller's tensor unchanged and sets its \<open>requires_grad\<close> flag: after the
  call the caller's tensor is the one passed with \<open>requires_grad = True\<close>, whether the call
  returned or raised, so it is unchanged exactly when the flag was set before.
\<close>

theorem normal_field_frame:
  "snd (get_normal_field f x) = x\<lparr>requires_grad := True\<rparr> \<and>
   data (snd (get_normal_field f x)) = data x \<and>
   requires_grad (snd (get_normal_field f x)) \<and>
   (snd (get_normal_field f x) = x \<longleftrightarrow> requires_grad x)"
proof -
  have s: "snd (get_normal_field f x) = x\<lparr>requires_grad := True\<rparr>"
    by (simp add: get_normal_field_def Let_def split: sum.splits)
  have "(x\<lparr>requires_grad := True\<rparr> = x) \<longleftrightarrow> requires_grad x"
    by (cases x) auto
  then show ?thesis
    using s by simp
qed

section \<open>Claims about the star field\<close>

text \<open>
  C6 does not hold at the origin: for \<open>n = 5\<close>, \<open>m = 5\<close>, \<open>r = 1\<close> the star field is \<open>0\<close>
  there, not a negative value.
\<close>

theorem star_sdf_origin_counterexample:
  "get_star_sdf 1 5 5 [[0, 0]] = Inr [0] \<and> \<not> (0::real) < 0"
  by (simp add: get_star_sdf_def star_origin)

text \<open>
  C6, as the source has it. For \<open>n = 5\<close>, \<open>m = 5\<close>, \<open>r = 1\<close> the star field is \<open>0\<close> at the
  origin; at the point \<open>(10, 0)\<close> it is \<open>9 = 10 * r - r\<close>, and at the other three points of
  magnitude \<open>10 * r\<close> on the coordinate axes it is between \<open>9\<close> and \<open>10\<close>.
\<close>

theorem star_sdf_5_5_values:
  "get_star_sdf 1 5 5 [[0, 0]] = Inr [0] \<and>
   get_star_sdf 1 5 5 [[10, 0]] = Inr [9] \<and>
   (\<exists>a b c. get_star_sdf 1 5 5 [[- 10, 0], [0, 10], [0, - 10]] = Inr [a, b, c] \<and>
      9 < a \<and> a < 10 \<and> 9 < b \<and> b < 10 \<and> 9 < c \<and> c < 10)"
proof -
  have "get_star_sdf 1 5 5 [[0, 0]] = Inr [0]"
    by (simp add: get_star_sdf_def star_origin)
  moreover have "get_star_sdf 1 5 5 [[10, 0]] = Inr [9]"
    by (simp add: get_star_sdf_def star_10_0)
  moreover have "get_star_sdf 1 5 5 [[- 10, 0], [0, 10], [0, - 10]]
      = Inr [star_point 1 5 5 [- 10, 0], star_point 1 5 5 [0, 10], star_point 1 5 5 [0, - 10]]"
    by (simp add: get_star_sdf_def)
  ultimately show ?thesis
    using star_neg10_0 star_0_10 star_0_neg10 by simp
qed

text \<open>
  C8 does not hold: the star field takes the point \<open>(3, 0, 4)\<close> of three coordinates
  without an error, and returns \<open>4\<close>; for the point \<open>(3, 0)\<close> it returns \<open>2\<close>.
\<close>

theorem star_sdf_3d_point_counterexample:
  "length [3, 0, 4 :: real] = 3 \<and>
   get_star_sdf 1 5 5 [[3, 0, 4]] = Inr [4] \<and>
   get_star_sdf 1 5 5 [[3, 0]] = Inr [2]"
  by (simp add: get_star_sdf_def star_3_0_4 star_3_0)

text \<open>
  C8, as the source has it. With \<open>n\<close> and \<open>m\<close> not zero (and \<open>sin (\<pi> / m) \<noteq> 0\<close>), the star
  field fails on a batch only when its points have fewer than two coordinates, with an
  IndexError; on points of two or more coordinates it returns one value per point. That
  value depends on the point only through its coordinates 0 and 1 and the norm of all its
  coordinates: further coordinates are neither rejected nor dropped.
\<close>

theorem star_sdf_dimension:
  "n \<noteq> 0 \<Longrightarrow> m \<noteq> 0 \<Longrightarrow> sin (pi / m) \<noteq> 0 \<Longrightarrow>
   (\<not> list_ex (\<lambda>p. length p < 2) x \<longrightarrow>
      (\<exists>vs. get_star_sdf r n m x = Inr vs \<and> length vs = length x)) \<and>
   (list_ex (\<lambda>p. length p < 2) x \<longrightarrow> get_star_sdf r n m x = Inl IndexError) \<and>
   (2 \<le> length p \<and> 2 \<le> length q \<and> p ! 0 = q ! 0 \<and> p ! 1 = q ! 1 \<and> norm_last p = norm_last q \<longrightarrow>
      get_star_sdf r n m [p] = get_star_sdf r n m [q])"
  by (simp add: get_star_sdf_def star_point_def)

theorem star_sdf_dimension_witness:
  "(5::real) \<noteq> 0 \<and> sin (pi / 5) \<noteq> 0 \<and>
   \<not> list_ex (\<lambda>p. length p < 2) [[3, 0, 4 :: real]] \<and>
   (\<exists>vs. get_star_sdf 1 5 5 [[3, 0, 4]] = Inr vs \<and> length vs = 1) \<and>
   list_ex (\<lambda>p. length p < 2) [[3 :: real]] \<and>
   get_star_sdf 1 5 5 [[3]] = Inl IndexError \<and>
   norm_last [3, 0, 4] = norm_last [3, 0, 0, 4] \<and>
   get_star_sdf 1 5 5 [[3, 0, 4]] = get_star_sdf 1 5 5 [[3, 0, 0, 4]]"
proof -
  have s: "sin (pi / 5) \<noteq> 0"
    using cs_pos by simp
  have n: "norm_last [3, 0, 4] = norm_last [3, 0, 0, 4]"
    by (simp add: norm_last_def sum_sq_def)
  have a: "\<not> list_ex (\<lambda>p. length p < 2) [[3, 0, 4 :: real]]"
    and b: "list_ex (\<lambda>p. length p < 2) [[3 :: real]]"
    by simp_all
  have "\<exists>vs. get_star_sdf 1 5 5 [[3, 0, 4]] = Inr vs \<and> length vs = 1"
    using star_sdf_dimension [of 5 5 "[[3, 0, 4]]" 1] s a by simp
  moreover have "get_star_sdf 1 5 5 [[3]] = Inl IndexError"
    using star_sdf_dimension [of 5 5 "[[3]]" 1] s b by simp
  moreover have "get_star_sdf 1 5 5 [[3, 0, 4]] = get_star_sdf 1 5 5 [[3, 0, 0, 4]]"
    using star_sdf_dimension [of 5 5 _ 1 "[3, 0, 4]" "[3, 0, 0, 4]"] s n by simp
  ultimately show ?thesis
    using s n by simp
qed

end
